theory Spec2Isabelle
  imports Main
begin

section \<open>Data model\<close>

text \<open>
  \<^verbatim>\<open>VideoItem\<close> of \<^verbatim>\<open>src/types/index.ts\<close>. The JavaScript type \<^verbatim>\<open>number\<close> is kept
  abstract as the type parameter \<open>'n\<close>; the only arithmetic the modelled code does on it
  is one subtraction. The field \<^verbatim>\<open>id\<close> is written \<open>id'\<close> because \<open>id\<close> is the identity
  function of HOL. The optional field \<^verbatim>\<open>thumbnailUri?: string\<close> is an option.
\<close>

record 'n VideoItem =
  id' :: string
  uri :: string
  name :: string
  description :: string
  duration :: 'n
  createdAt :: 'n
  thumbnailUri :: "string option"

section \<open>The store (\<^verbatim>\<open>src/store/videoStore.ts\<close>)\<close>

text \<open>
  The only data field of the zustand store is \<^verbatim>\<open>videos\<close>, so the store state is the list
  of records. Every action is a state transformer that returns its result together with
  the state it leaves behind: an action written with \<^verbatim>\<open>set\<close> returns the new list, the one
  written with \<^verbatim>\<open>get\<close> returns the list it was given. The \<^verbatim>\<open>persist\<close> middleware (the
  mirror of the state in AsyncStorage) is not modelled.
\<close>

type_synonym 'n store = "'n VideoItem list"

definition addVideo :: "'n VideoItem \<Rightarrow> 'n store \<Rightarrow> unit \<times> 'n store" where
  "addVideo video state = ((), video # state)"

definition updateVideo :: "'n VideoItem \<Rightarrow> 'n store \<Rightarrow> unit \<times> 'n store" where
  "updateVideo updatedVideo state =
     ((), map (\<lambda>video. if id' video = id' updatedVideo then updatedVideo else video) state)"

definition removeVideo :: "string \<Rightarrow> 'n store \<Rightarrow> unit \<times> 'n store" where
  "removeVideo i state = ((), filter (\<lambda>video. id' video \<noteq> i) state)"

definition getVideoById :: "string \<Rightarrow> 'n store \<Rightarrow> 'n VideoItem option \<times> 'n store" where
  "getVideoById i state = (find (\<lambda>video. id' video = i) state, state)"

text \<open>A sequence of \<^verbatim>\<open>addVideo\<close> calls, first call first.\<close>

fun addVideo_calls :: "'n VideoItem list \<Rightarrow> 'n store \<Rightarrow> 'n store" where
  "addVideo_calls [] state = state"
| "addVideo_calls (video # rest) state = addVideo_calls rest (snd (addVideo video state))"

text \<open>Three records to run the store on; the first and the third share an id.\<close>

definition rec_a :: "int VideoItem" where
  "rec_a = \<lparr>id' = ''1'', uri = ''a.mp4'', name = ''A'', description = '''', duration = 5,
            createdAt = 1, thumbnailUri = Some ''a.jpg''\<rparr>"

definition rec_b :: "int VideoItem" where
  "rec_b = \<lparr>id' = ''2'', uri = ''b.mp4'', name = ''B'', description = ''second'', duration = 7,
            createdAt = 2, thumbnailUri = None\<rparr>"

definition rec_c :: "int VideoItem" where
  "rec_c = \<lparr>id' = ''1'', uri = ''c.mp4'', name = ''C'', description = ''third'', duration = 9,
            createdAt = 3, thumbnailUri = Some ''c.jpg''\<rparr>"

section \<open>Exceptions, awaited calls and the platform\<close>

text \<open>
  A thrown JavaScript \<^verbatim>\<open>Error\<close> is a value carrying its message. An awaited call is a
  function from the state it runs in to its outcome, \<open>Inl\<close> for a rejection or a throw and
  \<open>Inr\<close> for the value it resolves to, paired with the state it leaves. The asynchronous
  code is run sequentially, one workflow to its end.
\<close>

datatype exn = Error string

definition io_return :: "'a \<Rightarrow> 's \<Rightarrow> (exn + 'a) \<times> 's" where
  "io_return a s = (Inr a, s)"

definition io_throw :: "exn \<Rightarrow> 's \<Rightarrow> (exn + 'a) \<times> 's" where
  "io_throw e s = (Inl e, s)"

definition io_bind ::
  "('s \<Rightarrow> (exn + 'a) \<times> 's) \<Rightarrow> ('a \<Rightarrow> 's \<Rightarrow> (exn + 'b) \<times> 's) \<Rightarrow> 's \<Rightarrow> (exn + 'b) \<times> 's" where
  "io_bind m f s = (case m s of (Inl e, s') \<Rightarrow> (Inl e, s') | (Inr a, s') \<Rightarrow> f a s')"

text \<open>
  What the code calls outside the repository, taken as parameters: \<^verbatim>\<open>expo-file-system\<close>
  (\<^verbatim>\<open>documentDirectory\<close>, which is a string or \<^verbatim>\<open>null\<close>, \<^verbatim>\<open>getInfoAsync\<close> reduced to the
  \<^verbatim>\<open>exists\<close> field of its result, \<^verbatim>\<open>makeDirectoryAsync\<close>), \<^verbatim>\<open>ffmpeg-kit-react-native\<close>
  (\<open>ffmpegExecute\<close> stands for \<^verbatim>\<open>FFmpegKit.execute\<close>, \<^verbatim>\<open>session.getReturnCode\<close> and
  \<^verbatim>\<open>ReturnCode.isSuccess\<close> together, \<open>getFailStackTrace\<close> for the session's method),
  \<^verbatim>\<open>Date.now\<close> and the conversion of a number to a string. They act on a state \<open>'w\<close> of
  the outside world (file system, clock) about which nothing is assumed. The calls of
  \<^verbatim>\<open>console.log\<close> and \<^verbatim>\<open>console.error\<close> are left out.
\<close>

record ('n, 'w) platform =
  documentDirectory :: "string option"
  getInfoAsync :: "string \<Rightarrow> 'w \<Rightarrow> (exn + bool) \<times> 'w"
  makeDirectoryAsync :: "string \<Rightarrow> 'w \<Rightarrow> (exn + unit) \<times> 'w"
  ffmpegExecute :: "string \<Rightarrow> 'w \<Rightarrow> (exn + bool) \<times> 'w"
  getFailStackTrace :: "'w \<Rightarrow> (exn + string) \<times> 'w"
  dateNow :: "'w \<Rightarrow> 'n \<times> 'w"
  numberToString :: "'n \<Rightarrow> string"

text \<open>\<^verbatim>\<open>Date.now()\<close> as an awaited call that never throws.\<close>

definition io_now :: "('n, 'w) platform \<Rightarrow> 'w \<Rightarrow> (exn + 'n) \<times> 'w" where
  "io_now p w = (case dateNow p w of (t, w') \<Rightarrow> (Inr t, w'))"

text \<open>A string or \<^verbatim>\<open>null\<close> inside a template literal.\<close>

definition interpolate :: "string option \<Rightarrow> string" where
  "interpolate x = (case x of None \<Rightarrow> ''null'' | Some s \<Rightarrow> s)"

section \<open>The gateway (\<^verbatim>\<open>src/services/videoService.ts\<close>)\<close>

text \<open>
  The fields of \<^verbatim>\<open>CropParams\<close> are passed as separate arguments, in the order of the
  destructuring. The \<^verbatim>\<open>catch\<close> blocks rethrow what they caught.
\<close>

definition cropVideo ::
  "('n::minus, 'w) platform \<Rightarrow> string \<Rightarrow> 'n \<Rightarrow> 'n \<Rightarrow> string \<Rightarrow> 'w \<Rightarrow> (exn + string) \<times> 'w" where
  "cropVideo p videoUri startTime endTime outputFileName =
     (let outputDir = interpolate (documentDirectory p) @ ''videos/'';
          outputPath = outputDir @ outputFileName @ ''.mp4''
      in io_bind (getInfoAsync p outputDir) (\<lambda>dirExists.
         io_bind (if \<not> dirExists then makeDirectoryAsync p outputDir else io_return ()) (\<lambda>_.
         let command = ''-ss '' @ numberToString p startTime @ '' -t ''
               @ numberToString p (endTime - startTime) @ '' -i '' @ videoUri
               @ '' -c:v mpeg4 -c:a aac -b:v 2M -b:a 128k -strict experimental '' @ outputPath
         in io_bind (ffmpegExecute p command) (\<lambda>isSuccess.
            if isSuccess then io_return outputPath
            else io_bind (getFailStackTrace p) (\<lambda>failStackTrace.
                 io_throw (Error ''Video trimming process failed''))))))"

definition generateThumbnail ::
  "('n, 'w) platform \<Rightarrow> string \<Rightarrow> 'w \<Rightarrow> (exn + string) \<times> 'w" where
  "generateThumbnail p videoUri =
     (let thumbnailDir = interpolate (documentDirectory p) @ ''thumbnails/''
      in io_bind (io_now p) (\<lambda>now.
         let thumbnailPath = thumbnailDir @ numberToString p now @ ''.jpg''
         in io_bind (getInfoAsync p thumbnailDir) (\<lambda>dirExists.
            io_bind (if \<not> dirExists then makeDirectoryAsync p thumbnailDir else io_return ()) (\<lambda>_.
            let command = ''-i '' @ videoUri @ '' -ss 0 -vframes 1 '' @ thumbnailPath
            in io_bind (ffmpegExecute p command) (\<lambda>isSuccess.
               if isSuccess then io_return thumbnailPath
               else io_bind (getFailStackTrace p) (\<lambda>failStackTrace.
                    io_throw (Error ''Thumbnail creation process failed'')))))))"

section \<open>The workflows (\<^verbatim>\<open>src/hooks/useVideoOperations.ts\<close>)\<close>

text \<open>
  The state of a react-query mutation: \<^verbatim>\<open>idle\<close>, \<^verbatim>\<open>pending\<close>, \<^verbatim>\<open>success\<close> with the value
  the mutation function returned, \<^verbatim>\<open>error\<close> with what it threw. These are the states
  IDLE, PROCESSING, SUCCESS and FAILED of the specification.
\<close>

datatype 'n mutation = Idle | Pending | Success "'n VideoItem" | Failed exn

text \<open>
  Everything a workflow reads or writes: the store's \<^verbatim>\<open>videos\<close>, the hook's \<^verbatim>\<open>isLoading\<close>
  and \<^verbatim>\<open>error\<close> (a string or \<^verbatim>\<open>null\<close>), its two mutations, and the outside world.
\<close>

record ('n, 'w) app =
  videos :: "'n store"
  isLoading :: bool
  error :: "string option"
  cropVideoMutation :: "'n mutation"
  editVideoMutation :: "'n mutation"
  world :: 'w

text \<open>A gateway or clock call, and a store action, as steps on the whole state.\<close>

definition on_world ::
  "('w \<Rightarrow> (exn + 'a) \<times> 'w) \<Rightarrow> ('n, 'w) app \<Rightarrow> (exn + 'a) \<times> ('n, 'w) app" where
  "on_world m s = (case m (world s) of (r, w') \<Rightarrow> (r, s\<lparr>world := w'\<rparr>))"

definition on_store ::
  "('n store \<Rightarrow> 'a \<times> 'n store) \<Rightarrow> ('n, 'w) app \<Rightarrow> (exn + 'a) \<times> ('n, 'w) app" where
  "on_store f s = (case f (videos s) of (a, v') \<Rightarrow> (Inr a, s\<lparr>videos := v'\<rparr>))"

text \<open>
  The mutation function of \<^verbatim>\<open>cropVideoMutation\<close>. \<^verbatim>\<open>Date.now()\<close> is read for the output file
  name, then, after both gateway calls, once for \<^verbatim>\<open>id\<close> and once more for \<^verbatim>\<open>createdAt\<close>.
  The \<^verbatim>\<open>catch\<close> block sets the hook's error and rethrows; \<^verbatim>\<open>finally\<close> clears \<^verbatim>\<open>isLoading\<close>.
\<close>

definition cropVideoMutationFn ::
  "('n::minus, 'w) platform \<Rightarrow> string \<Rightarrow> 'n \<Rightarrow> 'n \<Rightarrow> string \<Rightarrow> string
     \<Rightarrow> ('n, 'w) app \<Rightarrow> (exn + 'n VideoItem) \<times> ('n, 'w) app" where
  "cropVideoMutationFn p videoUri startTime endTime name' description' s =
     (case
        io_bind (on_world (io_now p)) (\<lambda>now1.
        let outputFileName = ''video_'' @ numberToString p now1
        in io_bind (on_world (cropVideo p videoUri startTime endTime outputFileName))
             (\<lambda>croppedVideoUri.
           io_bind (on_world (generateThumbnail p croppedVideoUri)) (\<lambda>thumbnailUri'.
           io_bind (on_world (io_now p)) (\<lambda>now2.
           io_bind (on_world (io_now p)) (\<lambda>now3.
           let newVideo = \<lparr>id' = numberToString p now2, uri = croppedVideoUri, name = name',
                 description = description', duration = endTime - startTime,
                 createdAt = now3, thumbnailUri = Some thumbnailUri'\<rparr>
           in io_bind (on_store (addVideo newVideo)) (\<lambda>_. io_return newVideo))))))
          (s\<lparr>isLoading := True, error := None\<rparr>)
      of (Inl err, s') \<Rightarrow>
           (Inl err, s'\<lparr>error := Some ''An error occurred during video processing'',
                        isLoading := False\<rparr>)
       | (Inr newVideo, s') \<Rightarrow> (Inr newVideo, s'\<lparr>isLoading := False\<rparr>))"

text \<open>
  The mutation function of \<^verbatim>\<open>editVideoMutation\<close>. The lookup comes first; the updated
  record is the record found with five fields overwritten.
\<close>

definition editVideoMutationFn ::
  "('n::minus, 'w) platform \<Rightarrow> string \<Rightarrow> string \<Rightarrow> 'n \<Rightarrow> 'n \<Rightarrow> string \<Rightarrow> string
     \<Rightarrow> ('n, 'w) app \<Rightarrow> (exn + 'n VideoItem) \<times> ('n, 'w) app" where
  "editVideoMutationFn p videoId videoUri startTime endTime name' description' s =
     (case
        io_bind (on_store (getVideoById videoId)) (\<lambda>found.
        case found of
          None \<Rightarrow> io_throw (Error ''Video not found'')
        | Some existingVideo \<Rightarrow>
            io_bind (on_world (io_now p)) (\<lambda>now1.
            let outputFileName = ''video_edit_'' @ numberToString p now1
            in io_bind (on_world (cropVideo p videoUri startTime endTime outputFileName))
                 (\<lambda>croppedVideoUri.
               io_bind (on_world (generateThumbnail p croppedVideoUri)) (\<lambda>thumbnailUri'.
               let updatedVideo = existingVideo\<lparr>uri := croppedVideoUri, name := name',
                     description := description', duration := endTime - startTime,
                     thumbnailUri := Some thumbnailUri'\<rparr>
               in io_bind (on_store (updateVideo updatedVideo)) (\<lambda>_. io_return updatedVideo)))))
          (s\<lparr>isLoading := True, error := None\<rparr>)
      of (Inl err, s') \<Rightarrow>
           (Inl err, s'\<lparr>error := Some ''An error occurred during video editing'',
                        isLoading := False\<rparr>)
       | (Inr updatedVideo, s') \<Rightarrow> (Inr updatedVideo, s'\<lparr>isLoading := False\<rparr>))"

text \<open>
  \<^verbatim>\<open>mutate\<close> of react-query: the mutation is pending while its function runs and ends in
  \<^verbatim>\<open>success\<close> or \<^verbatim>\<open>error\<close>. \<^verbatim>\<open>onSuccess\<close> invalidates the query \<^verbatim>\<open>videos\<close> of the query
  client, which is no part of this state. The hook returns them as \<^verbatim>\<open>cropVideo\<close> and
  \<^verbatim>\<open>editVideo\<close>.
\<close>

definition settle :: "exn + 'n VideoItem \<Rightarrow> 'n mutation" where
  "settle r = (case r of Inl err \<Rightarrow> Failed err | Inr v \<Rightarrow> Success v)"

definition cropVideo_mutate ::
  "('n::minus, 'w) platform \<Rightarrow> string \<Rightarrow> 'n \<Rightarrow> 'n \<Rightarrow> string \<Rightarrow> string
     \<Rightarrow> ('n, 'w) app \<Rightarrow> ('n, 'w) app" where
  "cropVideo_mutate p videoUri startTime endTime name' description' s =
     (case cropVideoMutationFn p videoUri startTime endTime name' description'
             (s\<lparr>cropVideoMutation := Pending\<rparr>)
      of (r, s') \<Rightarrow> s'\<lparr>cropVideoMutation := settle r\<rparr>)"

definition editVideo_mutate ::
  "('n::minus, 'w) platform \<Rightarrow> string \<Rightarrow> string \<Rightarrow> 'n \<Rightarrow> 'n \<Rightarrow> string \<Rightarrow> string
     \<Rightarrow> ('n, 'w) app \<Rightarrow> ('n, 'w) app" where
  "editVideo_mutate p videoId videoUri startTime endTime name' description' s =
     (case editVideoMutationFn p videoId videoUri startTime endTime name' description'
             (s\<lparr>editVideoMutation := Pending\<rparr>)
      of (r, s') \<Rightarrow> s'\<lparr>editVideoMutation := settle r\<rparr>)"

text \<open>
  The \<^verbatim>\<open>isLoading\<close> and \<^verbatim>\<open>error\<close> the hook returns. \<^verbatim>\<open>a || b\<close> is \<open>a\<close> when \<open>a\<close> is truthy
  (here: a non-empty string) and \<open>b\<close> otherwise; \<^verbatim>\<open>null\<close> and \<^verbatim>\<open>undefined\<close> are both \<open>None\<close>.
\<close>

definition js_or :: "string option \<Rightarrow> string option \<Rightarrow> string option" where
  "js_or a b = (case a of None \<Rightarrow> b | Some m \<Rightarrow> if m = [] then b else a)"

definition error_message :: "'n mutation \<Rightarrow> string option" where
  "error_message m = (case m of Failed (Error msg) \<Rightarrow> Some msg | _ \<Rightarrow> None)"

definition hook_isLoading :: "('n, 'w) app \<Rightarrow> bool" where
  "hook_isLoading s \<longleftrightarrow>
     isLoading s \<or> cropVideoMutation s = Pending \<or> editVideoMutation s = Pending"

definition hook_error :: "('n, 'w) app \<Rightarrow> string option" where
  "hook_error s =
     js_or (js_or (error s) (error_message (cropVideoMutation s)))
       (error_message (editVideoMutation s))"

section \<open>The screens (\<^verbatim>\<open>src/screens/VideoCreateScreen.tsx\<close>, \<^verbatim>\<open>VideoEditScreen.tsx\<close>)\<close>

text \<open>
  \<^verbatim>\<open>videoFormSchema.parse\<close> of zod, as the list of issues it raises (path and message), in
  the order of the schema: \<^verbatim>\<open>name\<close> is a string of at least 1 and at most 50 characters,
  \<^verbatim>\<open>description\<close> a string of at most 500. An empty list is a successful parse.
\<close>

definition videoFormSchema_parse :: "string \<Rightarrow> string \<Rightarrow> (string \<times> string) list" where
  "videoFormSchema_parse name' description' =
     (if length name' < 1 then [(''name'', ''Title is required'')] else [])
     @ (if 50 < length name' then [(''name'', ''Title must be less than 50 characters'')] else [])
     @ (if 500 < length description'
        then [(''description'', ''Description must be less than 500 characters'')] else [])"

text \<open>
  \<^verbatim>\<open>validateForm\<close> returns whether the form is valid, and the \<^verbatim>\<open>formErrors\<close> it sets: the
  empty object on success, one message per path otherwise.
\<close>

definition validateForm :: "string \<Rightarrow> string \<Rightarrow> bool \<times> (string \<rightharpoonup> string)" where
  "validateForm name' description' =
     (case videoFormSchema_parse name' description' of
        [] \<Rightarrow> (True, Map.empty)
      | issue # issues \<Rightarrow>
          (False, fold (\<lambda>(path, message) errors. errors(path \<mapsto> message)) (issue # issues)
                    Map.empty))"

text \<open>
  A screen: the state of its \<^verbatim>\<open>useVideoOperations\<close> hook and of the store, its
  \<^verbatim>\<open>formErrors\<close>, and the route the navigator shows. The values a handler closes over
  (\<^verbatim>\<open>selectedVideoUri\<close>, which is a string or \<^verbatim>\<open>null\<close>, the time range, the two text
  inputs) are its arguments.
\<close>

record ('n, 'w) screen =
  hook :: "('n, 'w) app"
  formErrors :: "string \<rightharpoonup> string"
  route :: string

definition handleCropVideo ::
  "('n::minus, 'w) platform \<Rightarrow> string option \<Rightarrow> 'n \<Rightarrow> 'n \<Rightarrow> string \<Rightarrow> string
     \<Rightarrow> ('n, 'w) screen \<Rightarrow> ('n, 'w) screen" where
  "handleCropVideo p selectedVideoUri startTime endTime name' description' sc =
     (case selectedVideoUri of
        None \<Rightarrow> sc
      | Some videoUri \<Rightarrow>
          if videoUri = [] then sc
          else sc\<lparr>hook := cropVideo_mutate p videoUri startTime endTime name' description'
                             (hook sc),
                  route := ''Home''\<rparr>)"

definition handleSaveVideo ::
  "('n::minus, 'w) platform \<Rightarrow> string option \<Rightarrow> 'n \<Rightarrow> 'n \<Rightarrow> string \<Rightarrow> string
     \<Rightarrow> ('n, 'w) screen \<Rightarrow> ('n, 'w) screen" where
  "handleSaveVideo p selectedVideoUri startTime endTime name' description' sc =
     (case validateForm name' description' of
        (valid, errors) \<Rightarrow>
          if \<not> valid then sc\<lparr>formErrors := errors\<rparr>
          else handleCropVideo p selectedVideoUri startTime endTime name' description'
                 (sc\<lparr>formErrors := errors\<rparr>))"

text \<open>
  The button "Save Video" of the create screen: \<^verbatim>\<open>onPress={handleCropVideo}\<close>.
\<close>

definition saveVideo_onPress ::
  "('n::minus, 'w) platform \<Rightarrow> string option \<Rightarrow> 'n \<Rightarrow> 'n \<Rightarrow> string \<Rightarrow> string
     \<Rightarrow> ('n, 'w) screen \<Rightarrow> ('n, 'w) screen" where
  "saveVideo_onPress = handleCropVideo"

text \<open>
  The button "Update" of the edit screen: \<^verbatim>\<open>onPress={handleUpdateVideo}\<close>, disabled when
  \<^verbatim>\<open>!name || isLoading\<close>. \<^verbatim>\<open>videoData\<close> is the record the screen looked up by \<^verbatim>\<open>videoId\<close>.
\<close>

definition handleUpdateVideo ::
  "('n::minus, 'w) platform \<Rightarrow> string \<Rightarrow> 'n \<Rightarrow> 'n \<Rightarrow> string \<Rightarrow> string
     \<Rightarrow> ('n, 'w) screen \<Rightarrow> ('n, 'w) screen" where
  "handleUpdateVideo p videoId startTime endTime name' description' sc =
     (case validateForm name' description' of
        (valid, errors) \<Rightarrow>
          if \<not> valid then sc\<lparr>formErrors := errors\<rparr>
          else (case fst (getVideoById videoId (videos (hook sc))) of
                  None \<Rightarrow> sc\<lparr>formErrors := errors\<rparr>
                | Some videoData \<Rightarrow>
                    sc\<lparr>formErrors := errors,
                       hook := editVideo_mutate p videoId (uri videoData) startTime endTime
                                 name' description' (hook sc),
                       route := ''Home''\<rparr>))"

definition update_onPress ::
  "('n::minus, 'w) platform \<Rightarrow> string \<Rightarrow> 'n \<Rightarrow> 'n \<Rightarrow> string \<Rightarrow> string
     \<Rightarrow> ('n, 'w) screen \<Rightarrow> ('n, 'w) screen" where
  "update_onPress p videoId startTime endTime name' description' sc =
     (if name' = [] \<or> hook_isLoading (hook sc) then sc
      else handleUpdateVideo p videoId startTime endTime name' description' sc)"

section \<open>A platform to run the code on\<close>

text \<open>
  Numbers are integers, rendered in decimal. The world is the clock and the names of the
  calls made to the file system and to FFmpeg, oldest first. The clock advances by one at
  each reading. No directory exists, every file system call succeeds, and the two flags
  say whether FFmpeg succeeds on a trim command (the one that starts with \<^verbatim>\<open>-ss\<close>) and on
  a thumbnail command.
\<close>

fun digits :: "nat \<Rightarrow> string" where
  "digits n =
     (if n < 10 then [''0123456789'' ! n]
      else digits (n div 10) @ [''0123456789'' ! (n mod 10)])"

declare digits.simps [simp del]

definition int_toString :: "int \<Rightarrow> string" where
  "int_toString i = (if i < 0 then CHR ''-'' # digits (nat (- i)) else digits (nat i))"

record demo_world =
  clock :: int
  calls :: "string list"

definition demo_platform :: "bool \<Rightarrow> bool \<Rightarrow> (int, demo_world) platform" where
  "demo_platform trimOk thumbnailOk =
     \<lparr>documentDirectory = Some ''file:///doc/'',
      getInfoAsync = (\<lambda>dir w. (Inr False, w\<lparr>calls := calls w @ [''getInfoAsync'']\<rparr>)),
      makeDirectoryAsync =
        (\<lambda>dir w. (Inr (), w\<lparr>calls := calls w @ [''makeDirectoryAsync'']\<rparr>)),
      ffmpegExecute =
        (\<lambda>command w. (Inr (if take 3 command = ''-ss'' then trimOk else thumbnailOk),
                       w\<lparr>calls := calls w @ [''FFmpegKit.execute'']\<rparr>)),
      getFailStackTrace = (\<lambda>w. (Inr ''trace'', w)),
      dateNow = (\<lambda>w. (clock w, w\<lparr>clock := clock w + 1\<rparr>)),
      numberToString = int_toString\<rparr>"

definition demo_app :: "int store \<Rightarrow> (int, demo_world) app" where
  "demo_app v =
     \<lparr>videos = v, isLoading = False, error = None, cropVideoMutation = Idle,
      editVideoMutation = Idle, world = \<lparr>clock = 1000, calls = []\<rparr>\<rparr>"

definition demo_screen :: "int store \<Rightarrow> string \<Rightarrow> (int, demo_world) screen" where
  "demo_screen v r = \<lparr>hook = demo_app v, formErrors = Map.empty, route = r\<rparr>"

section \<open>Properties of the store\<close>

lemma addVideo_calls_rev: "addVideo_calls rs state = rev rs @ state"
  by (induction rs arbitrary: state) (simp_all add: addVideo_def)

lemma find_id_None: "find (\<lambda>video. id' video = i) v = None \<longleftrightarrow> i \<notin> id' ` set v"
  by (induction v) auto

lemma map_replace_absent:
  "i \<notin> id' ` set v \<Longrightarrow> map (\<lambda>video. if id' video = i then r else video) v = v"
  by (induction v) auto

lemma filter_absent: "i \<notin> id' ` set v \<Longrightarrow> filter (\<lambda>video. id' video \<noteq> i) v = v"
  by (induction v) auto

lemma map_replace_unique:
  assumes "k < length v" and "id' (v ! k) = i"
    and "\<forall>j<length v. j \<noteq> k \<longrightarrow> id' (v ! j) \<noteq> i"
  shows "map (\<lambda>video. if id' video = i then r else video) v = v[k := r]"
proof (rule nth_equalityI)
  show "length (map (\<lambda>video. if id' video = i then r else video) v) = length (v[k := r])"
    by simp
next
  fix j
  assume "j < length (map (\<lambda>video. if id' video = i then r else video) v)"
  then have j: "j < length v" by simp
  show "map (\<lambda>video. if id' video = i then r else video) v ! j = v[k := r] ! j"
  proof (cases "j = k")
    case True
    with assms(1,2) show ?thesis by simp
  next
    case False
    with assms(3) j have "id' (v ! j) \<noteq> i" by blast
    with False j show ?thesis by simp
  qed
qed

text \<open>
  C6. \<^verbatim>\<open>addVideo r\<close> puts \<open>r\<close> at the front and keeps every record that was there, in
  its order (the record at position \<open>k\<close> moves to position \<open>k + 1\<close>). Hence \<open>n\<close> calls from
  the empty collection leave \<open>n\<close> records, newest first: the record of the last call is at
  the front, position \<open>k\<close> holds the record of call \<open>n - 1 - k\<close>, and ids that were distinct
  are still distinct.
\<close>

theorem addVideo_prepends_newest_first:
  "snd (addVideo r v) = r # v
   \<and> (\<forall>k<length v. snd (addVideo r v) ! Suc k = v ! k)
   \<and> addVideo_calls rs [] = rev rs
   \<and> length (addVideo_calls rs []) = length rs
   \<and> (\<forall>k<length rs. addVideo_calls rs [] ! k = rs ! (length rs - 1 - k))
   \<and> (distinct (map id' rs) \<longrightarrow> distinct (map id' (addVideo_calls rs [])))"
proof -
  have calls: "addVideo_calls rs [] = rev rs"
    by (simp add: addVideo_calls_rev)
  have nth: "\<forall>k<length rs. rev rs ! k = rs ! (length rs - 1 - k)"
    by (simp add: rev_nth)
  have dist: "distinct (map id' rs) \<longrightarrow> distinct (map id' (rev rs))"
    by (simp add: rev_map [symmetric])
  show ?thesis
    unfolding calls using nth dist by (simp add: addVideo_def)
qed

theorem addVideo_prepends_newest_first_witness:
  "snd (addVideo rec_b [rec_a]) = [rec_b, rec_a]
   \<and> snd (addVideo rec_b [rec_a]) ! Suc 0 = [rec_a] ! 0
   \<and> distinct (map id' [rec_a, rec_b])
   \<and> addVideo_calls [rec_a, rec_b] [] = [rec_b, rec_a]
   \<and> length (addVideo_calls [rec_a, rec_b] []) = 2
   \<and> addVideo_calls [rec_a, rec_b] [] ! 0 = rec_b
   \<and> distinct (map id' (addVideo_calls [rec_a, rec_b] []))"
  using addVideo_prepends_newest_first [of rec_b "[rec_a]" "[rec_a, rec_b]"]
  by (simp add: rec_a_def rec_b_def)

text \<open>
  C7. When exactly one record of \<open>v\<close>, the one at position \<open>k\<close>, has the id of \<open>r\<close>,
  \<^verbatim>\<open>updateVideo r\<close> puts \<open>r\<close> at position \<open>k\<close> and changes neither the length nor any
  other position. When no record of \<open>v\<close> has the id of \<open>r\<close>, the collection stays as it is.
\<close>

theorem updateVideo_replaces_in_place:
  "(k < length v \<and> id' (v ! k) = id' r \<and> (\<forall>j<length v. j \<noteq> k \<longrightarrow> id' (v ! j) \<noteq> id' r)
      \<longrightarrow> snd (updateVideo r v) = v[k := r]
          \<and> length (snd (updateVideo r v)) = length v
          \<and> snd (updateVideo r v) ! k = r
          \<and> (\<forall>j<length v. j \<noteq> k \<longrightarrow> snd (updateVideo r v) ! j = v ! j))
   \<and> (id' r \<notin> id' ` set v \<longrightarrow> snd (updateVideo r v) = v)"
proof (intro conjI impI)
  assume h: "k < length v \<and> id' (v ! k) = id' r
    \<and> (\<forall>j<length v. j \<noteq> k \<longrightarrow> id' (v ! j) \<noteq> id' r)"
  then have eq: "snd (updateVideo r v) = v[k := r]"
    by (simp add: updateVideo_def map_replace_unique)
  show "snd (updateVideo r v) = v[k := r]" by (rule eq)
  show "length (snd (updateVideo r v)) = length v" by (simp add: eq)
  show "snd (updateVideo r v) ! k = r" using h by (simp add: eq)
  show "\<forall>j<length v. j \<noteq> k \<longrightarrow> snd (updateVideo r v) ! j = v ! j" by (simp add: eq)
next
  assume "id' r \<notin> id' ` set v"
  then show "snd (updateVideo r v) = v"
    by (simp add: updateVideo_def map_replace_absent)
qed

theorem updateVideo_replaces_in_place_witness:
  "(1::nat) < length [rec_b, rec_a] \<and> id' ([rec_b, rec_a] ! 1) = id' rec_c
   \<and> id' ([rec_b, rec_a] ! 0) \<noteq> id' rec_c
   \<and> snd (updateVideo rec_c [rec_b, rec_a]) = [rec_b, rec_c]
   \<and> length (snd (updateVideo rec_c [rec_b, rec_a])) = 2
   \<and> snd (updateVideo rec_c [rec_b, rec_a]) ! 0 = rec_b
   \<and> id' rec_c \<notin> id' ` set [rec_b]
   \<and> snd (updateVideo rec_c [rec_b]) = [rec_b]"
  using updateVideo_replaces_in_place [of 1 "[rec_b, rec_a]" rec_c]
    updateVideo_replaces_in_place [of 0 "[rec_b]" rec_c]
  by (simp add: rec_a_def rec_b_def rec_c_def less_Suc_eq)

text \<open>
  C8. \<^verbatim>\<open>removeVideo i\<close> applied to a collection whose only record with id \<open>i\<close> is \<open>r\<close>
  leaves the records before \<open>r\<close> followed by the records after \<open>r\<close>. When no record has
  id \<open>i\<close> the collection stays as it is. In every case the records kept are exactly the
  records with another id, and \<^verbatim>\<open>getVideoById i\<close> on the collection that
  \<^verbatim>\<open>removeVideo i\<close> leaves finds nothing, so in particular for an id that was present.
\<close>

theorem removeVideo_deletes:
  "(id' r = i \<and> i \<notin> id' ` set xs \<and> i \<notin> id' ` set ys
      \<longrightarrow> snd (removeVideo i (xs @ r # ys)) = xs @ ys)
   \<and> (i \<notin> id' ` set v \<longrightarrow> snd (removeVideo i v) = v)
   \<and> set (snd (removeVideo i v)) = {x \<in> set v. id' x \<noteq> i}
   \<and> (i \<in> id' ` set v \<longrightarrow> fst (getVideoById i (snd (removeVideo i v))) = None)
   \<and> fst (getVideoById i (snd (removeVideo i v))) = None"
proof -
  have gone: "fst (getVideoById i (snd (removeVideo i v))) = None"
    by (auto simp: getVideoById_def removeVideo_def find_id_None)
  have one: "id' r = i \<and> i \<notin> id' ` set xs \<and> i \<notin> id' ` set ys
      \<longrightarrow> snd (removeVideo i (xs @ r # ys)) = xs @ ys"
    by (simp add: removeVideo_def filter_absent)
  have none: "i \<notin> id' ` set v \<longrightarrow> snd (removeVideo i v) = v"
    by (simp add: removeVideo_def filter_absent)
  have kept: "set (snd (removeVideo i v)) = {x \<in> set v. id' x \<noteq> i}"
    by (simp add: removeVideo_def)
  from one none kept gone show ?thesis by blast
qed

theorem removeVideo_deletes_witness:
  "id' rec_a = ''1'' \<and> ''1'' \<notin> id' ` set [rec_b] \<and> ''1'' \<notin> id' ` set ([] :: int VideoItem list)
   \<and> snd (removeVideo ''1'' ([rec_b] @ rec_a # [])) = [rec_b]
   \<and> ''1'' \<in> id' ` set [rec_b, rec_a]
   \<and> fst (getVideoById ''1'' (snd (removeVideo ''1'' [rec_b, rec_a]))) = None
   \<and> ''3'' \<notin> id' ` set [rec_b, rec_a]
   \<and> snd (removeVideo ''3'' [rec_b, rec_a]) = [rec_b, rec_a]"
proof -
  note t1 = removeVideo_deletes [of rec_a "''1''" "[rec_b]" "[]" "[rec_b, rec_a]"]
  note t3 = removeVideo_deletes [of rec_a "''3''" "[]" "[]" "[rec_b, rec_a]"]
  have h1: "id' rec_a = ''1'' \<and> ''1'' \<notin> id' ` set [rec_b]
      \<and> ''1'' \<notin> id' ` set ([] :: int VideoItem list)"
    by (simp add: rec_a_def rec_b_def)
  have h2: "''1'' \<in> id' ` set [rec_b, rec_a]"
    by (simp add: rec_a_def rec_b_def)
  have h3: "''3'' \<notin> id' ` set [rec_b, rec_a]"
    by (simp add: rec_a_def rec_b_def)
  from t1 h1 have c1: "snd (removeVideo ''1'' ([rec_b] @ rec_a # [])) = [rec_b] @ []"
    by blast
  from t1 h2 have c2: "fst (getVideoById ''1'' (snd (removeVideo ''1'' [rec_b, rec_a]))) = None"
    by blast
  from t3 h3 have c3: "snd (removeVideo ''3'' [rec_b, rec_a]) = [rec_b, rec_a]"
    by blast
  from h1 h2 h3 c1 c2 c3 show ?thesis by simp
qed

text \<open>
  C9. \<^verbatim>\<open>getVideoById\<close> finds nothing in the empty collection. In general it returns a
  record of the collection whose id is the one asked for when there is one (the only such
  record when the id occurs once), and \<open>None\<close>, the model of \<^verbatim>\<open>undefined\<close>, exactly when
  there is none. The collection it leaves is the collection it was given.
\<close>

theorem getVideoById_lookup:
  "getVideoById i [] = (None, [])
   \<and> snd (getVideoById i v) = v
   \<and> (fst (getVideoById i v) = None \<longleftrightarrow> i \<notin> id' ` set v)
   \<and> (i \<in> id' ` set v \<longrightarrow> (\<exists>r. fst (getVideoById i v) = Some r \<and> r \<in> set v \<and> id' r = i))
   \<and> (id' r = i \<and> i \<notin> id' ` set xs \<and> i \<notin> id' ` set ys
        \<longrightarrow> fst (getVideoById i (xs @ r # ys)) = Some r)"
proof -
  have empty: "getVideoById i [] = (None, [])"
    by (simp add: getVideoById_def)
  have same: "snd (getVideoById i v) = v"
    by (simp add: getVideoById_def)
  have none: "fst (getVideoById i v) = None \<longleftrightarrow> i \<notin> id' ` set v"
    by (simp add: getVideoById_def find_id_None)
  have some: "i \<in> id' ` set v \<longrightarrow> (\<exists>r. fst (getVideoById i v) = Some r \<and> r \<in> set v \<and> id' r = i)"
  proof
    assume "i \<in> id' ` set v"
    with none obtain r where r: "find (\<lambda>video. id' video = i) v = Some r"
      by (auto simp: getVideoById_def)
    then have "r \<in> set v \<and> id' r = i"
      by (auto simp: find_Some_iff)
    with r show "\<exists>r. fst (getVideoById i v) = Some r \<and> r \<in> set v \<and> id' r = i"
      by (simp add: getVideoById_def)
  qed
  have only: "id' r = i \<and> i \<notin> id' ` set xs \<and> i \<notin> id' ` set ys
        \<longrightarrow> fst (getVideoById i (xs @ r # ys)) = Some r"
    by (induction xs) (auto simp: getVideoById_def)
  from empty same none some only show ?thesis by blast
qed

theorem getVideoById_lookup_witness:
  "getVideoById ''1'' ([] :: int store) = (None, [])
   \<and> snd (getVideoById ''1'' [rec_b, rec_a]) = [rec_b, rec_a]
   \<and> id' rec_a = ''1'' \<and> ''1'' \<notin> id' ` set [rec_b]
   \<and> ''1'' \<notin> id' ` set ([] :: int VideoItem list)
   \<and> fst (getVideoById ''1'' [rec_b, rec_a]) = Some rec_a
   \<and> ''3'' \<notin> id' ` set [rec_b, rec_a]
   \<and> fst (getVideoById ''3'' [rec_b, rec_a]) = None"
proof -
  note t1 = getVideoById_lookup [of "''1''" "[rec_b, rec_a]" rec_a "[rec_b]" "[]"]
  note t3 = getVideoById_lookup [of "''3''" "[rec_b, rec_a]" rec_a "[]" "[]"]
  have h1: "id' rec_a = ''1'' \<and> ''1'' \<notin> id' ` set [rec_b]
      \<and> ''1'' \<notin> id' ` set ([] :: int VideoItem list)"
    by (simp add: rec_a_def rec_b_def)
  have h3: "''3'' \<notin> id' ` set [rec_b, rec_a]"
    by (simp add: rec_a_def rec_b_def)
  from t1 have c0: "getVideoById ''1'' ([] :: int store) = (None, [])"
    by blast
  from t1 have c1: "snd (getVideoById ''1'' [rec_b, rec_a]) = [rec_b, rec_a]"
    by blast
  from t1 h1 have c2: "fst (getVideoById ''1'' ([rec_b] @ rec_a # [])) = Some rec_a"
    by blast
  from t3 h3 have c3: "fst (getVideoById ''3'' [rec_b, rec_a]) = None"
    by blast
  from h1 h3 c0 c1 c2 c3 show ?thesis by simp
qed

text \<open>
  C10. The store does not keep ids unique. \<^verbatim>\<open>addVideo r\<close> on a collection that already
  has the id of \<open>r\<close> still puts \<open>r\<close> at the front, so at least two records carry that id.
  On any collection \<^verbatim>\<open>updateVideo r\<close> puts \<open>r\<close> at every position that carried its id,
  \<^verbatim>\<open>removeVideo i\<close> removes as many records as carried \<open>i\<close> and leaves none with it, and
  \<^verbatim>\<open>getVideoById i\<close> returns the first record with id \<open>i\<close> in collection order, which
  after \<^verbatim>\<open>addVideo r\<close> is \<open>r\<close> for the id of \<open>r\<close>.
\<close>

theorem store_duplicate_ids:
  "(id' r \<in> id' ` set v \<longrightarrow>
      snd (addVideo r v) = r # v
      \<and> \<not> distinct (map id' (snd (addVideo r v)))
      \<and> 2 \<le> length (filter (\<lambda>x. id' x = id' r) (snd (addVideo r v))))
   \<and> (\<forall>j<length v. id' (v ! j) = id' r \<longrightarrow> snd (updateVideo r v) ! j = r)
   \<and> (\<forall>x\<in>set (snd (removeVideo i v)). id' x \<noteq> i)
   \<and> length (snd (removeVideo i v)) + length (filter (\<lambda>x. id' x = i) v) = length v
   \<and> (id' r = i \<and> i \<notin> id' ` set xs \<longrightarrow> fst (getVideoById i (xs @ r # ys)) = Some r)
   \<and> fst (getVideoById (id' r) (snd (addVideo r v))) = Some r"
proof -
  have add: "id' r \<in> id' ` set v \<longrightarrow>
      snd (addVideo r v) = r # v
      \<and> \<not> distinct (map id' (snd (addVideo r v)))
      \<and> 2 \<le> length (filter (\<lambda>x. id' x = id' r) (snd (addVideo r v)))"
  proof
    assume m: "id' r \<in> id' ` set v"
    then have nd: "\<not> distinct (map id' (r # v))"
      by simp
    from m have "filter (\<lambda>x. id' x = id' r) v \<noteq> []"
      by (auto simp: filter_empty_conv)
    then have "1 \<le> length (filter (\<lambda>x. id' x = id' r) v)"
      by (cases "filter (\<lambda>x. id' x = id' r) v") simp_all
    with nd show "snd (addVideo r v) = r # v
      \<and> \<not> distinct (map id' (snd (addVideo r v)))
      \<and> 2 \<le> length (filter (\<lambda>x. id' x = id' r) (snd (addVideo r v)))"
      by (simp add: addVideo_def)
  qed
  have upd: "\<forall>j<length v. id' (v ! j) = id' r \<longrightarrow> snd (updateVideo r v) ! j = r"
    by (simp add: updateVideo_def)
  have rem: "\<forall>x\<in>set (snd (removeVideo i v)). id' x \<noteq> i"
    by (simp add: removeVideo_def)
  have cnt: "length (snd (removeVideo i v)) + length (filter (\<lambda>x. id' x = i) v) = length v"
    using sum_length_filter_compl [of "\<lambda>x. id' x = i" v] by (simp add: removeVideo_def)
  have first: "id' r = i \<and> i \<notin> id' ` set xs \<longrightarrow> fst (getVideoById i (xs @ r # ys)) = Some r"
    by (induction xs) (auto simp: getVideoById_def)
  have front: "fst (getVideoById (id' r) (snd (addVideo r v))) = Some r"
    by (simp add: getVideoById_def addVideo_def)
  from add upd rem cnt first front show ?thesis by blast
qed

theorem store_duplicate_ids_witness:
  "id' rec_c \<in> id' ` set [rec_b, rec_a]
   \<and> snd (addVideo rec_c [rec_b, rec_a]) = [rec_c, rec_b, rec_a]
   \<and> \<not> distinct (map id' (snd (addVideo rec_c [rec_b, rec_a])))
   \<and> snd (updateVideo rec_c [rec_a, rec_b, rec_c]) = [rec_c, rec_b, rec_c]
   \<and> snd (removeVideo ''1'' [rec_c, rec_b, rec_a]) = [rec_b]
   \<and> fst (getVideoById ''1'' [rec_b, rec_c, rec_a]) = Some rec_c"
proof -
  note t = store_duplicate_ids [of rec_c "[rec_b, rec_a]" "''1''" "[rec_b]" "[rec_a]"]
  have u: "snd (updateVideo rec_c [rec_a, rec_b, rec_c]) = [rec_c, rec_b, rec_c]"
    by (simp add: updateVideo_def rec_a_def rec_b_def rec_c_def)
  have r: "snd (removeVideo ''1'' [rec_c, rec_b, rec_a]) = [rec_b]"
    by (simp add: removeVideo_def rec_a_def rec_b_def rec_c_def)
  have m: "id' rec_c \<in> id' ` set [rec_b, rec_a]"
    by (simp add: rec_a_def rec_b_def rec_c_def)
  have i: "id' rec_c = ''1'' \<and> ''1'' \<notin> id' ` set [rec_b]"
    by (simp add: rec_a_def rec_b_def rec_c_def)
  from t m i u r show ?thesis by simp
qed

section \<open>Properties of the gateway and of the workflows\<close>

lemma io_bind_Inl: "m s = (Inl e, s') \<Longrightarrow> io_bind m f s = (Inl e, s')"
  by (simp add: io_bind_def)

lemma io_bind_Inr: "m s = (Inr a, s') \<Longrightarrow> io_bind m f s = f a s'"
  by (simp add: io_bind_def)

lemma on_world_eq: "m (world s) = (r, w') \<Longrightarrow> on_world m s = (r, s\<lparr>world := w'\<rparr>)"
  by (simp add: on_world_def)

lemma io_now_eq: "dateNow p w = (t, w') \<Longrightarrow> io_now p w = (Inr t, w')"
  by (simp add: io_now_def)

lemma generateThumbnail_nonempty:
  "generateThumbnail p u w = (Inr t, w') \<Longrightarrow> t \<noteq> []"
  by (auto simp: generateThumbnail_def io_bind_def io_now_def io_return_def io_throw_def Let_def
      split: prod.splits sum.splits if_splits)

lemma cropVideo_outputPath:
  "cropVideo p videoUri a b outputFileName w = (Inr u, w') \<Longrightarrow>
     u = interpolate (documentDirectory p) @ ''videos/'' @ outputFileName @ ''.mp4''"
  by (auto simp: cropVideo_def io_bind_def io_return_def io_throw_def Let_def
      split: prod.splits sum.splits if_splits)

lemma cropVideoMutationFn_success:
  assumes n1: "dateNow p (world s) = (now1, w1)"
    and trim: "cropVideo p videoUri a b (''video_'' @ numberToString p now1) w1 = (Inr croppedUri, w2)"
    and thumb: "generateThumbnail p croppedUri w2 = (Inr thumb, w3)"
    and n2: "dateNow p w3 = (now2, w4)"
    and n3: "dateNow p w4 = (now3, w5)"
  shows "cropVideoMutationFn p videoUri a b title descr s =
     (Inr \<lparr>id' = numberToString p now2, uri = croppedUri, name = title, description = descr,
            duration = b - a, createdAt = now3, thumbnailUri = Some thumb\<rparr>,
      s\<lparr>videos := \<lparr>id' = numberToString p now2, uri = croppedUri, name = title, description = descr,
            duration = b - a, createdAt = now3, thumbnailUri = Some thumb\<rparr> # videos s,
        isLoading := False, error := None, world := w5\<rparr>)"
  using assms
  by (simp add: cropVideoMutationFn_def io_bind_Inr on_world_eq io_now_eq on_store_def addVideo_def io_return_def Let_def io_bind_def)

lemma cropVideoMutationFn_trim_fails:
  assumes n1: "dateNow p (world s) = (now1, w1)"
    and trim: "cropVideo p videoUri a b (''video_'' @ numberToString p now1) w1 = (Inl e, w2)"
  shows "cropVideoMutationFn p videoUri a b title descr s =
     (Inl e, s\<lparr>isLoading := False,
               error := Some ''An error occurred during video processing'', world := w2\<rparr>)"
  using assms
  by (simp add: cropVideoMutationFn_def io_bind_Inr io_bind_Inl on_world_eq io_now_eq)

lemma cropVideoMutationFn_thumbnail_fails:
  assumes n1: "dateNow p (world s) = (now1, w1)"
    and trim: "cropVideo p videoUri a b (''video_'' @ numberToString p now1) w1 = (Inr croppedUri, w2)"
    and thumb: "generateThumbnail p croppedUri w2 = (Inl e, w3)"
  shows "cropVideoMutationFn p videoUri a b title descr s =
     (Inl e, s\<lparr>isLoading := False,
               error := Some ''An error occurred during video processing'', world := w3\<rparr>)"
  using assms
  by (simp add: cropVideoMutationFn_def io_bind_Inr io_bind_Inl on_world_eq io_now_eq)

lemma editVideoMutationFn_not_found:
  assumes "fst (getVideoById videoId (videos s)) = None"
  shows "editVideoMutationFn p videoId videoUri a b title descr s =
     (Inl (Error ''Video not found''),
      s\<lparr>isLoading := False, error := Some ''An error occurred during video editing''\<rparr>)"
  using assms
  by (simp add: editVideoMutationFn_def io_bind_def on_store_def getVideoById_def io_throw_def)

lemma editVideoMutationFn_trim_fails:
  assumes found: "fst (getVideoById videoId (videos s)) = Some existing"
    and n1: "dateNow p (world s) = (now1, w1)"
    and trim: "cropVideo p videoUri a b (''video_edit_'' @ numberToString p now1) w1 = (Inl e, w2)"
  shows "editVideoMutationFn p videoId videoUri a b title descr s =
     (Inl e, s\<lparr>isLoading := False,
               error := Some ''An error occurred during video editing'', world := w2\<rparr>)"
proof -
  have look: "getVideoById videoId (videos s) = (Some existing, videos s)"
    using found by (simp add: getVideoById_def)
  show ?thesis
    using n1 trim
    by (simp add: editVideoMutationFn_def look io_bind_def on_store_def
        on_world_eq io_now_eq)
qed

lemma editVideoMutationFn_thumbnail_fails:
  assumes found: "fst (getVideoById videoId (videos s)) = Some existing"
    and n1: "dateNow p (world s) = (now1, w1)"
    and trim: "cropVideo p videoUri a b (''video_edit_'' @ numberToString p now1) w1 = (Inr croppedUri, w2)"
    and thumb: "generateThumbnail p croppedUri w2 = (Inl e, w3)"
  shows "editVideoMutationFn p videoId videoUri a b title descr s =
     (Inl e, s\<lparr>isLoading := False,
               error := Some ''An error occurred during video editing'', world := w3\<rparr>)"
proof -
  have look: "getVideoById videoId (videos s) = (Some existing, videos s)"
    using found by (simp add: getVideoById_def)
  show ?thesis
    using n1 trim thumb
    by (simp add: editVideoMutationFn_def look io_bind_def on_store_def
        on_world_eq io_now_eq)
qed

lemma editVideoMutationFn_success:
  assumes found: "fst (getVideoById videoId (videos s)) = Some existing"
    and n1: "dateNow p (world s) = (now1, w1)"
    and trim: "cropVideo p videoUri a b (''video_edit_'' @ numberToString p now1) w1 = (Inr croppedUri, w2)"
    and thumb: "generateThumbnail p croppedUri w2 = (Inr thumb, w3)"
  shows "editVideoMutationFn p videoId videoUri a b title descr s =
     (Inr (existing\<lparr>uri := croppedUri, name := title, description := descr,
                     duration := b - a, thumbnailUri := Some thumb\<rparr>),
      s\<lparr>videos := map (\<lambda>video. if id' video = id' existing
                        then existing\<lparr>uri := croppedUri, name := title, description := descr,
                               duration := b - a, thumbnailUri := Some thumb\<rparr>
                        else video) (videos s),
        isLoading := False, error := None, world := w3\<rparr>)"
proof -
  have look: "getVideoById videoId (videos s) = (Some existing, videos s)"
    using found by (simp add: getVideoById_def)
  show ?thesis
    using n1 trim thumb
    by (simp add: editVideoMutationFn_def look io_bind_def
        on_world_eq io_now_eq Let_def on_store_def updateVideo_def io_bind_def io_return_def)
qed

text \<open>
  C1. When the trim call and then the thumbnail call of a create workflow succeed, the
  workflow ends in SUCCESS and the store holds exactly one record more, at the front. Its
  duration is the end time minus the start time, its id is the rendering of a clock
  reading made after both gateway calls and its \<^verbatim>\<open>createdAt\<close> is the clock reading after
  that one, its uri is the locator the trim call returned, its title and description are
  the ones given, and its thumbnail locator is the one the thumbnail call returned, which
  is not empty. The run that follows the theorem is scenario A: start 0, end 5, title
  "Clip" and an empty description on an empty store leave one record of duration 5.
\<close>

theorem create_prepends_new_record:
  assumes n1: "dateNow p (world s) = (now1, w1)"
    and trim: "cropVideo p videoUri a b (''video_'' @ numberToString p now1) w1 = (Inr croppedUri, w2)"
    and thumb: "generateThumbnail p croppedUri w2 = (Inr thumb, w3)"
    and n2: "dateNow p w3 = (now2, w4)"
    and n3: "dateNow p w4 = (now3, w5)"
  shows "(let s' = cropVideo_mutate p videoUri a b title descr s;
              newVideo = \<lparr>id' = numberToString p now2, uri = croppedUri, name = title,
                description = descr, duration = b - a, createdAt = now3,
                thumbnailUri = Some thumb\<rparr>
          in videos s' = newVideo # videos s
             \<and> length (videos s') = Suc (length (videos s))
             \<and> thumb \<noteq> []
             \<and> cropVideoMutation s' = Success newVideo
             \<and> isLoading s' = False \<and> error s' = None \<and> world s' = w5)"
proof -
  have ne: "thumb \<noteq> []"
    using thumb by (rule generateThumbnail_nonempty)
  have n1': "dateNow p (world (s\<lparr>cropVideoMutation := Pending\<rparr>)) = (now1, w1)"
    using n1 by simp
  show ?thesis
    using ne
    by (simp add: cropVideo_mutate_def settle_def
        cropVideoMutationFn_success [OF n1' trim thumb n2 n3])
qed

theorem create_prepends_new_record_witness:
  "dateNow (demo_platform True True) (world (demo_app [])) = (1000, \<lparr>clock = 1001, calls = []\<rparr>)
   \<and> cropVideo (demo_platform True True) ''src.mov'' 0 5
       (''video_'' @ numberToString (demo_platform True True) 1000) \<lparr>clock = 1001, calls = []\<rparr>
       = (Inr ''file:///doc/videos/video_1000.mp4'',
          \<lparr>clock = 1001, calls = [''getInfoAsync'', ''makeDirectoryAsync'', ''FFmpegKit.execute'']\<rparr>)
   \<and> fst (generateThumbnail (demo_platform True True) ''file:///doc/videos/video_1000.mp4''
       \<lparr>clock = 1001, calls = [''getInfoAsync'', ''makeDirectoryAsync'', ''FFmpegKit.execute'']\<rparr>)
       = Inr ''file:///doc/thumbnails/1001.jpg''
   \<and> videos (cropVideo_mutate (demo_platform True True) ''src.mov'' 0 5 ''Clip'' [] (demo_app []))
       = [\<lparr>id' = ''1002'', uri = ''file:///doc/videos/video_1000.mp4'', name = ''Clip'',
           description = [], duration = 5, createdAt = 1003,
           thumbnailUri = Some ''file:///doc/thumbnails/1001.jpg''\<rparr>]"
proof -
  define P where "P = demo_platform True True"
  define W3 where "W3 = \<lparr>clock = 1002, calls = [''getInfoAsync'', ''makeDirectoryAsync'',
    ''FFmpegKit.execute'', ''getInfoAsync'', ''makeDirectoryAsync'', ''FFmpegKit.execute'']\<rparr>"
  have n1: "dateNow P (world (demo_app [])) = (1000, \<lparr>clock = 1001, calls = []\<rparr>)"
    unfolding P_def by code_simp
  have trim: "cropVideo P ''src.mov'' 0 5 (''video_'' @ numberToString P 1000)
       \<lparr>clock = 1001, calls = []\<rparr>
       = (Inr ''file:///doc/videos/video_1000.mp4'',
          \<lparr>clock = 1001, calls = [''getInfoAsync'', ''makeDirectoryAsync'', ''FFmpegKit.execute'']\<rparr>)"
    unfolding P_def by code_simp
  have thumb: "generateThumbnail P ''file:///doc/videos/video_1000.mp4''
       \<lparr>clock = 1001, calls = [''getInfoAsync'', ''makeDirectoryAsync'', ''FFmpegKit.execute'']\<rparr>
       = (Inr ''file:///doc/thumbnails/1001.jpg'', W3)"
    unfolding P_def W3_def by code_simp
  have n2: "dateNow P W3 = (1002, W3\<lparr>clock := 1003\<rparr>)"
    unfolding P_def W3_def by code_simp
  have n3: "dateNow P (W3\<lparr>clock := 1003\<rparr>) = (1003, W3\<lparr>clock := 1004\<rparr>)"
    unfolding P_def W3_def by code_simp
  have id2: "numberToString P 1002 = ''1002''"
    unfolding P_def by code_simp
  from create_prepends_new_record [OF n1 trim thumb n2 n3, of "''Clip''" "[]"]
  have "videos (cropVideo_mutate P ''src.mov'' 0 5 ''Clip'' [] (demo_app []))
       = [\<lparr>id' = ''1002'', uri = ''file:///doc/videos/video_1000.mp4'', name = ''Clip'',
           description = [], duration = 5, createdAt = 1003,
           thumbnailUri = Some ''file:///doc/thumbnails/1001.jpg''\<rparr>]"
    by (simp add: Let_def id2 demo_app_def)
  with n1 trim thumb show ?thesis
    unfolding P_def by simp
qed

text \<open>
  C4. When no record of the store has the target id, the edit workflow ends in FAILED
  with the error "Video not found", whatever the platform does: the outside world is left
  as it was, so neither gateway call, nor any file system call, nor a clock reading has
  been made, and the collection is the same. The run that follows uses a platform that
  writes down every call, and the list of calls stays empty.
\<close>

theorem edit_not_found:
  assumes absent: "videoId \<notin> id' ` set (videos s)"
  shows "(let s' = editVideo_mutate p videoId videoUri a b title descr s
          in editVideoMutation s' = Failed (Error ''Video not found'')
             \<and> world s' = world s
             \<and> videos s' = videos s
             \<and> error s' = Some ''An error occurred during video editing''
             \<and> isLoading s' = False
             \<and> cropVideoMutation s' = cropVideoMutation s)"
proof -
  have none: "fst (getVideoById videoId (videos (s\<lparr>editVideoMutation := Pending\<rparr>))) = None"
    using absent by (simp add: getVideoById_def find_id_None)
  show ?thesis
    by (simp add: editVideo_mutate_def settle_def editVideoMutationFn_not_found [OF none])
qed

theorem edit_not_found_witness:
  "''7'' \<notin> id' ` set (videos (demo_app [rec_b, rec_a]))
   \<and> editVideoMutation (editVideo_mutate (demo_platform True True) ''7'' ''a.mp4'' 2 9 ''New'' ''d''
        (demo_app [rec_b, rec_a])) = Failed (Error ''Video not found'')
   \<and> calls (world (editVideo_mutate (demo_platform True True) ''7'' ''a.mp4'' 2 9 ''New'' ''d''
        (demo_app [rec_b, rec_a]))) = []
   \<and> videos (editVideo_mutate (demo_platform True True) ''7'' ''a.mp4'' 2 9 ''New'' ''d''
        (demo_app [rec_b, rec_a])) = [rec_b, rec_a]"
proof -
  have absent: "''7'' \<notin> id' ` set (videos (demo_app [rec_b, rec_a]))"
    by (simp add: demo_app_def rec_a_def rec_b_def)
  from edit_not_found [OF absent, of "demo_platform True True" "''a.mp4''" 2 9 "''New''" "''d''"]
    absent
  show ?thesis
    by (simp add: Let_def demo_app_def)
qed

lemma create_gateway_failure:
  assumes n1: "dateNow p (world s) = (now1, w1)"
    and fails: "fst (cropVideo p videoUri a b (''video_'' @ numberToString p now1) w1) = Inl e
      \<or> (\<exists>croppedUri w2.
            cropVideo p videoUri a b (''video_'' @ numberToString p now1) w1 = (Inr croppedUri, w2)
            \<and> fst (generateThumbnail p croppedUri w2) = Inl e)"
  shows "\<exists>w'. cropVideo_mutate p videoUri a b title descr s =
           s\<lparr>isLoading := False, error := Some ''An error occurred during video processing'',
             cropVideoMutation := Failed e, world := w'\<rparr>"
proof -
  have n1': "dateNow p (world (s\<lparr>cropVideoMutation := Pending\<rparr>)) = (now1, w1)"
    using n1 by simp
  from fails show ?thesis
  proof
    assume "fst (cropVideo p videoUri a b (''video_'' @ numberToString p now1) w1) = Inl e"
    then obtain w2 where
      trim: "cropVideo p videoUri a b (''video_'' @ numberToString p now1) w1 = (Inl e, w2)"
      by (cases "cropVideo p videoUri a b (''video_'' @ numberToString p now1) w1") simp
    show ?thesis
      by (rule exI [of _ w2])
        (simp add: cropVideo_mutate_def settle_def cropVideoMutationFn_trim_fails [OF n1' trim])
  next
    assume "\<exists>croppedUri w2.
            cropVideo p videoUri a b (''video_'' @ numberToString p now1) w1 = (Inr croppedUri, w2)
            \<and> fst (generateThumbnail p croppedUri w2) = Inl e"
    then obtain croppedUri w2 where
      trim: "cropVideo p videoUri a b (''video_'' @ numberToString p now1) w1 = (Inr croppedUri, w2)"
      and "fst (generateThumbnail p croppedUri w2) = Inl e"
      by blast
    then obtain w3 where thumb: "generateThumbnail p croppedUri w2 = (Inl e, w3)"
      by (cases "generateThumbnail p croppedUri w2") simp
    show ?thesis
      by (rule exI [of _ w3])
        (simp add: cropVideo_mutate_def settle_def
          cropVideoMutationFn_thumbnail_fails [OF n1' trim thumb])
  qed
qed

lemma edit_gateway_failure:
  assumes found: "fst (getVideoById videoId (videos s)) = Some existing"
    and n1: "dateNow p (world s) = (now1, w1)"
    and fails: "fst (cropVideo p videoUri a b (''video_edit_'' @ numberToString p now1) w1) = Inl e
      \<or> (\<exists>croppedUri w2.
            cropVideo p videoUri a b (''video_edit_'' @ numberToString p now1) w1
              = (Inr croppedUri, w2)
            \<and> fst (generateThumbnail p croppedUri w2) = Inl e)"
  shows "\<exists>w'. editVideo_mutate p videoId videoUri a b title descr s =
           s\<lparr>isLoading := False, error := Some ''An error occurred during video editing'',
             editVideoMutation := Failed e, world := w'\<rparr>"
proof -
  have found': "fst (getVideoById videoId (videos (s\<lparr>editVideoMutation := Pending\<rparr>)))
      = Some existing"
    using found by simp
  have n1': "dateNow p (world (s\<lparr>editVideoMutation := Pending\<rparr>)) = (now1, w1)"
    using n1 by simp
  from fails show ?thesis
  proof
    assume "fst (cropVideo p videoUri a b (''video_edit_'' @ numberToString p now1) w1) = Inl e"
    then obtain w2 where
      trim: "cropVideo p videoUri a b (''video_edit_'' @ numberToString p now1) w1 = (Inl e, w2)"
      by (cases "cropVideo p videoUri a b (''video_edit_'' @ numberToString p now1) w1") simp
    show ?thesis
      by (rule exI [of _ w2])
        (simp add: editVideo_mutate_def settle_def
          editVideoMutationFn_trim_fails [OF found' n1' trim])
  next
    assume "\<exists>croppedUri w2.
            cropVideo p videoUri a b (''video_edit_'' @ numberToString p now1) w1
              = (Inr croppedUri, w2)
            \<and> fst (generateThumbnail p croppedUri w2) = Inl e"
    then obtain croppedUri w2 where
      trim: "cropVideo p videoUri a b (''video_edit_'' @ numberToString p now1) w1
               = (Inr croppedUri, w2)"
      and "fst (generateThumbnail p croppedUri w2) = Inl e"
      by blast
    then obtain w3 where thumb: "generateThumbnail p croppedUri w2 = (Inl e, w3)"
      by (cases "generateThumbnail p croppedUri w2") simp
    show ?thesis
      by (rule exI [of _ w3])
        (simp add: editVideo_mutate_def settle_def
          editVideoMutationFn_thumbnail_fails [OF found' n1' trim thumb])
  qed
qed

text \<open>
  C5. When the trim call of a create workflow fails, or it succeeds and the thumbnail
  call fails, with the error \<open>e\<close>, the workflow ends in FAILED with \<open>e\<close>, the hook shows
  its error message and the collection is the one before the invocation. The same holds
  for an edit workflow whose target id is in the store.
\<close>

theorem gateway_failure_leaves_store:
  "(dateNow p (world s) = (now1, w1)
    \<and> (fst (cropVideo p videoUri a b (''video_'' @ numberToString p now1) w1) = Inl e
       \<or> (\<exists>croppedUri w2.
            cropVideo p videoUri a b (''video_'' @ numberToString p now1) w1 = (Inr croppedUri, w2)
            \<and> fst (generateThumbnail p croppedUri w2) = Inl e))
    \<longrightarrow> (let s' = cropVideo_mutate p videoUri a b title descr s
         in cropVideoMutation s' = Failed e
            \<and> videos s' = videos s
            \<and> error s' = Some ''An error occurred during video processing''
            \<and> hook_error s' = Some ''An error occurred during video processing''
            \<and> isLoading s' = False))
   \<and> (fst (getVideoById videoId (videos s)) = Some existing
      \<and> dateNow p (world s) = (now1, w1)
      \<and> (fst (cropVideo p videoUri a b (''video_edit_'' @ numberToString p now1) w1) = Inl e
         \<or> (\<exists>croppedUri w2.
              cropVideo p videoUri a b (''video_edit_'' @ numberToString p now1) w1
                = (Inr croppedUri, w2)
              \<and> fst (generateThumbnail p croppedUri w2) = Inl e))
      \<longrightarrow> (let s' = editVideo_mutate p videoId videoUri a b title descr s
           in editVideoMutation s' = Failed e
              \<and> videos s' = videos s
              \<and> error s' = Some ''An error occurred during video editing''
              \<and> hook_error s' = Some ''An error occurred during video editing''
              \<and> isLoading s' = False))"
proof (intro conjI impI)
  assume h: "dateNow p (world s) = (now1, w1)
    \<and> (fst (cropVideo p videoUri a b (''video_'' @ numberToString p now1) w1) = Inl e
       \<or> (\<exists>croppedUri w2.
            cropVideo p videoUri a b (''video_'' @ numberToString p now1) w1 = (Inr croppedUri, w2)
            \<and> fst (generateThumbnail p croppedUri w2) = Inl e))"
  then obtain w' where "cropVideo_mutate p videoUri a b title descr s =
           s\<lparr>isLoading := False, error := Some ''An error occurred during video processing'',
             cropVideoMutation := Failed e, world := w'\<rparr>"
    using create_gateway_failure [of p s now1 w1 videoUri a b e title descr] by blast
  then show "let s' = cropVideo_mutate p videoUri a b title descr s
         in cropVideoMutation s' = Failed e
            \<and> videos s' = videos s
            \<and> error s' = Some ''An error occurred during video processing''
            \<and> hook_error s' = Some ''An error occurred during video processing''
            \<and> isLoading s' = False"
    by (simp add: hook_error_def js_or_def)
next
  assume h: "fst (getVideoById videoId (videos s)) = Some existing
      \<and> dateNow p (world s) = (now1, w1)
      \<and> (fst (cropVideo p videoUri a b (''video_edit_'' @ numberToString p now1) w1) = Inl e
         \<or> (\<exists>croppedUri w2.
              cropVideo p videoUri a b (''video_edit_'' @ numberToString p now1) w1
                = (Inr croppedUri, w2)
              \<and> fst (generateThumbnail p croppedUri w2) = Inl e))"
  then obtain w' where "editVideo_mutate p videoId videoUri a b title descr s =
           s\<lparr>isLoading := False, error := Some ''An error occurred during video editing'',
             editVideoMutation := Failed e, world := w'\<rparr>"
    using edit_gateway_failure [of videoId s existing p now1 w1 videoUri a b e title descr]
    by blast
  then show "let s' = editVideo_mutate p videoId videoUri a b title descr s
           in editVideoMutation s' = Failed e
              \<and> videos s' = videos s
              \<and> error s' = Some ''An error occurred during video editing''
              \<and> hook_error s' = Some ''An error occurred during video editing''
              \<and> isLoading s' = False"
    by (simp add: hook_error_def js_or_def)
qed

theorem gateway_failure_leaves_store_witness:
  "dateNow (demo_platform True False) (world (demo_app [rec_b]))
     = (1000, \<lparr>clock = 1001, calls = []\<rparr>)
   \<and> cropVideo (demo_platform True False) ''src.mov'' 0 5
        (''video_'' @ numberToString (demo_platform True False) 1000) \<lparr>clock = 1001, calls = []\<rparr>
       = (Inr ''file:///doc/videos/video_1000.mp4'',
          \<lparr>clock = 1001, calls = [''getInfoAsync'', ''makeDirectoryAsync'', ''FFmpegKit.execute'']\<rparr>)
   \<and> fst (generateThumbnail (demo_platform True False) ''file:///doc/videos/video_1000.mp4''
        \<lparr>clock = 1001, calls = [''getInfoAsync'', ''makeDirectoryAsync'', ''FFmpegKit.execute'']\<rparr>)
       = Inl (Error ''Thumbnail creation process failed'')
   \<and> cropVideoMutation (cropVideo_mutate (demo_platform True False) ''src.mov'' 0 5 ''Clip'' []
        (demo_app [rec_b])) = Failed (Error ''Thumbnail creation process failed'')
   \<and> videos (cropVideo_mutate (demo_platform True False) ''src.mov'' 0 5 ''Clip'' []
        (demo_app [rec_b])) = [rec_b]
   \<and> fst (getVideoById ''1'' (videos (demo_app [rec_b, rec_a]))) = Some rec_a
   \<and> dateNow (demo_platform False True) (world (demo_app [rec_b, rec_a]))
       = (1000, \<lparr>clock = 1001, calls = []\<rparr>)
   \<and> fst (cropVideo (demo_platform False True) ''a.mp4'' 2 9
        (''video_edit_'' @ numberToString (demo_platform False True) 1000)
        \<lparr>clock = 1001, calls = []\<rparr>) = Inl (Error ''Video trimming process failed'')
   \<and> editVideoMutation (editVideo_mutate (demo_platform False True) ''1'' ''a.mp4'' 2 9 ''New'' ''d''
        (demo_app [rec_b, rec_a])) = Failed (Error ''Video trimming process failed'')
   \<and> videos (editVideo_mutate (demo_platform False True) ''1'' ''a.mp4'' 2 9 ''New'' ''d''
        (demo_app [rec_b, rec_a])) = [rec_b, rec_a]"
proof -
  define P where "P = demo_platform True False"
  define Q where "Q = demo_platform False True"
  define W1 where "W1 = \<lparr>clock = 1001, calls = []\<rparr>"
  define W2 where "W2 = \<lparr>clock = 1001,
    calls = [''getInfoAsync'', ''makeDirectoryAsync'', ''FFmpegKit.execute'']\<rparr>"
  have n1: "dateNow P (world (demo_app [rec_b])) = (1000, W1)"
    unfolding P_def W1_def by code_simp
  have trim: "cropVideo P ''src.mov'' 0 5 (''video_'' @ numberToString P 1000) W1
       = (Inr ''file:///doc/videos/video_1000.mp4'', W2)"
    unfolding P_def W1_def W2_def by code_simp
  have thumb: "fst (generateThumbnail P ''file:///doc/videos/video_1000.mp4'' W2)
       = Inl (Error ''Thumbnail creation process failed'')"
    unfolding P_def W2_def by code_simp
  have found: "fst (getVideoById ''1'' (videos (demo_app [rec_b, rec_a]))) = Some rec_a"
    by code_simp
  have m1: "dateNow Q (world (demo_app [rec_b, rec_a])) = (1000, W1)"
    unfolding Q_def W1_def by code_simp
  have trimQ: "fst (cropVideo Q ''a.mp4'' 2 9 (''video_edit_'' @ numberToString Q 1000) W1)
       = Inl (Error ''Video trimming process failed'')"
    unfolding Q_def W1_def by code_simp
  note c = gateway_failure_leaves_store [where p = P and s = "demo_app [rec_b]" and ?now1.0 = 1000
      and ?w1.0 = W1 and videoUri = "''src.mov''" and a = 0 and b = 5
      and e = "Error ''Thumbnail creation process failed''" and title = "''Clip''" and descr = "[]"
      and videoId = "''1''" and existing = rec_a]
  note d = gateway_failure_leaves_store [where p = Q and s = "demo_app [rec_b, rec_a]"
      and ?now1.0 = 1000 and ?w1.0 = W1 and videoUri = "''a.mp4''" and a = 2 and b = 9
      and e = "Error ''Video trimming process failed''" and title = "''New''" and descr = "''d''"
      and videoId = "''1''" and existing = rec_a]
  from c n1 trim thumb
  have create: "let s' = cropVideo_mutate P ''src.mov'' 0 5 ''Clip'' [] (demo_app [rec_b])
         in cropVideoMutation s' = Failed (Error ''Thumbnail creation process failed'')
            \<and> videos s' = videos (demo_app [rec_b])
            \<and> error s' = Some ''An error occurred during video processing''
            \<and> hook_error s' = Some ''An error occurred during video processing''
            \<and> isLoading s' = False"
    by blast
  from d found m1 trimQ
  have edit: "let s' = editVideo_mutate Q ''1'' ''a.mp4'' 2 9 ''New'' ''d'' (demo_app [rec_b, rec_a])
           in editVideoMutation s' = Failed (Error ''Video trimming process failed'')
              \<and> videos s' = videos (demo_app [rec_b, rec_a])
              \<and> error s' = Some ''An error occurred during video editing''
              \<and> hook_error s' = Some ''An error occurred during video editing''
              \<and> isLoading s' = False"
    by blast
  from create edit n1 trim thumb found m1 trimQ show ?thesis
    unfolding P_def Q_def W1_def W2_def by (simp add: Let_def demo_app_def)
qed

text \<open>
  C2. When the target id of an edit workflow is in the store and both gateway calls
  succeed, the workflow ends in SUCCESS with the updated record: the id and \<^verbatim>\<open>createdAt\<close>
  of the record found, and the uri, title, description, duration (end minus start) and
  thumbnail locator of this invocation. The collection keeps its length, every position
  whose record has another id keeps its record, and every position whose record has the
  target id holds the updated record. When the ids of the collection are distinct this
  is the replacement of the record found, at its position.
\<close>

theorem edit_replaces_record:
  assumes found: "fst (getVideoById videoId (videos s)) = Some existing"
    and n1: "dateNow p (world s) = (now1, w1)"
    and trim: "cropVideo p videoUri a b (''video_edit_'' @ numberToString p now1) w1
                 = (Inr croppedUri, w2)"
    and thumb: "generateThumbnail p croppedUri w2 = (Inr thumb, w3)"
  shows "(let s' = editVideo_mutate p videoId videoUri a b title descr s;
              updatedVideo = \<lparr>id' = id' existing, uri = croppedUri, name = title,
                description = descr, duration = b - a, createdAt = createdAt existing,
                thumbnailUri = Some thumb\<rparr>
          in editVideoMutation s' = Success updatedVideo
             \<and> id' existing = videoId
             \<and> existing \<in> set (videos s)
             \<and> length (videos s') = length (videos s)
             \<and> (\<forall>j<length (videos s).
                   videos s' ! j
                     = (if id' (videos s ! j) = videoId then updatedVideo else videos s ! j))
             \<and> (distinct (map id' (videos s)) \<longrightarrow>
                   (\<exists>k<length (videos s).
                      videos s ! k = existing \<and> videos s' = (videos s)[k := updatedVideo])))"
proof -
  define u where "u = \<lparr>id' = id' existing, uri = croppedUri, name = title,
                description = descr, duration = b - a, createdAt = createdAt existing,
                thumbnailUri = Some thumb\<rparr>"
  have u: "existing\<lparr>uri := croppedUri, name := title, description := descr,
                    duration := b - a, thumbnailUri := Some thumb\<rparr> = u"
    unfolding u_def by (cases existing) simp
  from found have f: "find (\<lambda>video. id' video = videoId) (videos s) = Some existing"
    by (simp add: getVideoById_def)
  then have ex: "id' existing = videoId" "existing \<in> set (videos s)"
    by (auto simp: find_Some_iff)
  have found': "fst (getVideoById videoId (videos (s\<lparr>editVideoMutation := Pending\<rparr>)))
      = Some existing"
    using found by simp
  have n1': "dateNow p (world (s\<lparr>editVideoMutation := Pending\<rparr>)) = (now1, w1)"
    using n1 by simp
  have st: "editVideo_mutate p videoId videoUri a b title descr s =
      s\<lparr>videos := map (\<lambda>video. if id' video = videoId then u else video) (videos s),
        isLoading := False, error := None, editVideoMutation := Success u, world := w3\<rparr>"
    by (simp add: editVideo_mutate_def settle_def
        editVideoMutationFn_success [OF found' n1' trim thumb] u ex(1))
  have uniq: "\<exists>k<length (videos s). videos s ! k = existing
        \<and> map (\<lambda>video. if id' video = videoId then u else video) (videos s) = (videos s)[k := u]"
    if d: "distinct (map id' (videos s))"
  proof -
    from ex(2) obtain k where k: "k < length (videos s)" "videos s ! k = existing"
      by (auto simp: in_set_conv_nth)
    have other: "\<forall>j<length (videos s). j \<noteq> k \<longrightarrow> id' (videos s ! j) \<noteq> videoId"
    proof (intro allI impI)
      fix j assume j: "j < length (videos s)" "j \<noteq> k"
      from d have "\<forall>m<length (videos s). \<forall>n<length (videos s).
          m \<noteq> n \<longrightarrow> id' (videos s ! m) \<noteq> id' (videos s ! n)"
        by (simp add: distinct_conv_nth)
      with j k(1) have "id' (videos s ! j) \<noteq> id' (videos s ! k)"
        by blast
      with k(2) ex(1) show "id' (videos s ! j) \<noteq> videoId"
        by simp
    qed
    from k ex(1) other
    have "map (\<lambda>video. if id' video = videoId then u else video) (videos s) = (videos s)[k := u]"
      by (intro map_replace_unique) simp_all
    with k show ?thesis by blast
  qed
  show ?thesis
    unfolding Let_def u_def [symmetric] st using ex uniq by simp
qed

theorem edit_replaces_record_witness:
  "fst (getVideoById ''1'' (videos (demo_app [rec_b, rec_a]))) = Some rec_a
   \<and> fst (cropVideo (demo_platform True True) ''a.mp4'' 2 9
        (''video_edit_'' @ numberToString (demo_platform True True) 1000)
        \<lparr>clock = 1001, calls = []\<rparr>) = Inr ''file:///doc/videos/video_edit_1000.mp4''
   \<and> fst (generateThumbnail (demo_platform True True) ''file:///doc/videos/video_edit_1000.mp4''
        \<lparr>clock = 1001, calls = [''getInfoAsync'', ''makeDirectoryAsync'', ''FFmpegKit.execute'']\<rparr>)
        = Inr ''file:///doc/thumbnails/1001.jpg''
   \<and> distinct (map id' (videos (demo_app [rec_b, rec_a])))
   \<and> videos (editVideo_mutate (demo_platform True True) ''1'' ''a.mp4'' 2 9 ''New'' ''d''
        (demo_app [rec_b, rec_a]))
       = [rec_b,
          \<lparr>id' = ''1'', uri = ''file:///doc/videos/video_edit_1000.mp4'', name = ''New'',
           description = ''d'', duration = 7, createdAt = 1,
           thumbnailUri = Some ''file:///doc/thumbnails/1001.jpg''\<rparr>]"
proof -
  define P where "P = demo_platform True True"
  define S where "S = demo_app [rec_b, rec_a]"
  define W2 where "W2 = \<lparr>clock = 1001,
    calls = [''getInfoAsync'', ''makeDirectoryAsync'', ''FFmpegKit.execute'']\<rparr>"
  define W3 where "W3 = \<lparr>clock = 1002, calls = [''getInfoAsync'', ''makeDirectoryAsync'',
    ''FFmpegKit.execute'', ''getInfoAsync'', ''makeDirectoryAsync'', ''FFmpegKit.execute'']\<rparr>"
  define U where "U = \<lparr>id' = id' rec_a, uri = ''file:///doc/videos/video_edit_1000.mp4'',
    name = ''New'', description = ''d'', duration = 9 - 2, createdAt = createdAt rec_a,
    thumbnailUri = Some ''file:///doc/thumbnails/1001.jpg''\<rparr>"
  have found: "fst (getVideoById ''1'' (videos S)) = Some rec_a"
    unfolding S_def by code_simp
  have n1: "dateNow P (world S) = (1000, \<lparr>clock = 1001, calls = []\<rparr>)"
    unfolding P_def S_def by code_simp
  have trim: "cropVideo P ''a.mp4'' 2 9 (''video_edit_'' @ numberToString P 1000)
       \<lparr>clock = 1001, calls = []\<rparr> = (Inr ''file:///doc/videos/video_edit_1000.mp4'', W2)"
    unfolding P_def W2_def by code_simp
  have thumb: "generateThumbnail P ''file:///doc/videos/video_edit_1000.mp4'' W2
       = (Inr ''file:///doc/thumbnails/1001.jpg'', W3)"
    unfolding P_def W2_def W3_def by code_simp
  have d: "distinct (map id' (videos S))"
    unfolding S_def by code_simp
  have len: "length (videos S) = 2" and v0: "videos S ! 0 = rec_b" and v1: "videos S ! 1 = rec_a"
    and ids: "id' rec_b \<noteq> ''1''" "id' rec_a = ''1''"
    unfolding S_def by (simp_all add: demo_app_def rec_a_def rec_b_def)
  note t = edit_replaces_record [OF found n1 trim thumb, of "''New''" "''d''"]
  from t have l: "length (videos (editVideo_mutate P ''1'' ''a.mp4'' 2 9 ''New'' ''d'' S)) = 2"
    by (simp add: Let_def len)
  from t have nth: "\<forall>j<length (videos S).
      videos (editVideo_mutate P ''1'' ''a.mp4'' 2 9 ''New'' ''d'' S) ! j
        = (if id' (videos S ! j) = ''1'' then U else videos S ! j)"
    unfolding Let_def U_def by blast
  from nth have e0: "videos (editVideo_mutate P ''1'' ''a.mp4'' 2 9 ''New'' ''d'' S) ! 0 = rec_b"
    using ids v0 by (simp add: len)
  from nth have e1: "videos (editVideo_mutate P ''1'' ''a.mp4'' 2 9 ''New'' ''d'' S) ! 1 = U"
    using ids v1 by (simp add: len)
  have "videos (editVideo_mutate P ''1'' ''a.mp4'' 2 9 ''New'' ''d'' S) = [rec_b, U]"
  proof (rule nth_equalityI)
    show "length (videos (editVideo_mutate P ''1'' ''a.mp4'' 2 9 ''New'' ''d'' S))
        = length [rec_b, U]"
      by (simp add: l)
  next
    fix i
    assume "i < length (videos (editVideo_mutate P ''1'' ''a.mp4'' 2 9 ''New'' ''d'' S))"
    then have "i = 0 \<or> i = 1"
      by (auto simp: l)
    then show "videos (editVideo_mutate P ''1'' ''a.mp4'' 2 9 ''New'' ''d'' S) ! i = [rec_b, U] ! i"
      using e0 e1 by auto
  qed
  then have res: "videos (editVideo_mutate P ''1'' ''a.mp4'' 2 9 ''New'' ''d'' S)
       = [rec_b,
          \<lparr>id' = ''1'', uri = ''file:///doc/videos/video_edit_1000.mp4'', name = ''New'',
           description = ''d'', duration = 7, createdAt = 1,
           thumbnailUri = Some ''file:///doc/thumbnails/1001.jpg''\<rparr>]"
    by (simp add: U_def rec_a_def)
  from found trim thumb d res show ?thesis
    unfolding P_def S_def W2_def by simp
qed

text \<open>
  C3. The button "Save Video" of the create screen calls \<^verbatim>\<open>handleCropVideo\<close>, which does
  not validate. With a video selected, the range 0 to 5 and an empty title, for which
  \<^verbatim>\<open>validateForm\<close> answers false, pressing it on an empty store calls the gateway and
  leaves a record with an empty title in the store. \<^verbatim>\<open>handleSaveVideo\<close>, which validates
  first and which no button calls, leaves hook and store as they were and sets the form
  error "Title is required" on the same input, and so does \<^verbatim>\<open>handleUpdateVideo\<close> of the
  edit screen.
\<close>

theorem saveVideo_onPress_skips_validation:
  "fst (validateForm [] []) = False
   \<and> videos (hook (saveVideo_onPress (demo_platform True True) (Some ''src.mov'') 0 5 [] []
        (demo_screen [] ''VideoCreate'')))
       = [\<lparr>id' = ''1002'', uri = ''file:///doc/videos/video_1000.mp4'', name = [],
           description = [], duration = 5, createdAt = 1003,
           thumbnailUri = Some ''file:///doc/thumbnails/1001.jpg''\<rparr>]
   \<and> calls (world (hook (saveVideo_onPress (demo_platform True True) (Some ''src.mov'') 0 5 [] []
        (demo_screen [] ''VideoCreate''))))
       = [''getInfoAsync'', ''makeDirectoryAsync'', ''FFmpegKit.execute'',
          ''getInfoAsync'', ''makeDirectoryAsync'', ''FFmpegKit.execute'']
   \<and> hook (handleSaveVideo (demo_platform True True) (Some ''src.mov'') 0 5 [] []
        (demo_screen [] ''VideoCreate'')) = demo_app []
   \<and> formErrors (handleSaveVideo (demo_platform True True) (Some ''src.mov'') 0 5 [] []
        (demo_screen [] ''VideoCreate'')) ''name'' = Some ''Title is required''
   \<and> hook (handleUpdateVideo (demo_platform True True) ''1'' 0 5 [] []
        (demo_screen [rec_a] ''VideoEdit'')) = demo_app [rec_a]"
proof (intro conjI)
  show "fst (validateForm [] []) = False"
    by code_simp
  show "videos (hook (saveVideo_onPress (demo_platform True True) (Some ''src.mov'') 0 5 [] []
        (demo_screen [] ''VideoCreate'')))
       = [\<lparr>id' = ''1002'', uri = ''file:///doc/videos/video_1000.mp4'', name = [],
           description = [], duration = 5, createdAt = 1003,
           thumbnailUri = Some ''file:///doc/thumbnails/1001.jpg''\<rparr>]"
    by code_simp
  show "calls (world (hook (saveVideo_onPress (demo_platform True True) (Some ''src.mov'') 0 5 [] []
        (demo_screen [] ''VideoCreate''))))
       = [''getInfoAsync'', ''makeDirectoryAsync'', ''FFmpegKit.execute'',
          ''getInfoAsync'', ''makeDirectoryAsync'', ''FFmpegKit.execute'']"
    by code_simp
  show "hook (handleSaveVideo (demo_platform True True) (Some ''src.mov'') 0 5 [] []
        (demo_screen [] ''VideoCreate'')) = demo_app []"
    by code_simp
  show "formErrors (handleSaveVideo (demo_platform True True) (Some ''src.mov'') 0 5 [] []
        (demo_screen [] ''VideoCreate'')) ''name'' = Some ''Title is required''"
    by code_simp
  show "hook (handleUpdateVideo (demo_platform True True) ''1'' 0 5 [] []
        (demo_screen [rec_a] ''VideoEdit'')) = demo_app [rec_a]"
    by code_simp
qed

end
